theory Spec2Isabelle
  imports Complex_Main "HOL-Library.Multiset" "HOL-Library.Log_Nat"
begin

section \<open>JavaScript numbers\<close>

text \<open>
  A JavaScript Number is an IEEE 754 double: NaN, one of the two infinities, or a finite
  double, which \<open>Fin\<close> gives by the rational it denotes. The two zeros are not told apart:
  the program never divides by a zero and JSON prints both as 0.

  Every arithmetic operation computes the exact result and rounds it to the nearest double,
  ties to the even significand. \<open>rhe\<close> rounds a rational to the nearest integer, half to even.
  \<open>quantum a\<close> is the exponent of the last place of the doubles around \<open>a > 0\<close>: for
  \<open>2\<^sup>e \<le> a < 2\<^sup>e\<^sup>+\<^sup>1\<close> it is \<open>e - 52\<close>, and \<open>-1074\<close> in the subnormal range below
  \<open>2\<^sup>-\<^sup>1\<^sup>0\<^sup>2\<^sup>2\<close>. A result that rounds to \<open>2\<^sup>1\<^sup>0\<^sup>2\<^sup>4\<close> or more is Infinity.
\<close>

datatype number = NaN | PosInf | NegInf | Fin rat

definition rhe :: "rat \<Rightarrow> int" where
  "rhe m =
     (let f = \<lfloor>m\<rfloor>; r = m - of_int f in
      if r < 1 / 2 then f else if 1 / 2 < r then f + 1 else if even f then f else f + 1)"

definition quantum :: "rat \<Rightarrow> int" where
  "quantum a = max (bitlen \<lfloor>a * 2 ^ 1074\<rfloor> - 1075) (- 1022) - 52"

definition round_pos :: "rat \<Rightarrow> number" where
  "round_pos a =
     (let q = quantum a; n = rhe (a / 2 powi q) in
      if 2 ^ 1024 \<le> of_int n * (2::rat) powi q then PosInf else Fin (of_int n * 2 powi q))"

fun neg :: "number \<Rightarrow> number" where
  "neg NaN = NaN"
| "neg PosInf = NegInf"
| "neg NegInf = PosInf"
| "neg (Fin x) = Fin (- x)"

text \<open>The double nearest to a rational.\<close>

definition rnd :: "rat \<Rightarrow> number" where
  "rnd x = (if x = 0 then Fin 0 else if 0 < x then round_pos x else neg (round_pos (- x)))"

text \<open>
  \<^verbatim>\<open>a + b\<close>, \<^verbatim>\<open>a - b\<close>, \<^verbatim>\<open>a * b\<close> and \<^verbatim>\<open>a / b\<close> on Numbers. Infinity minus
  Infinity, zero times Infinity, zero by zero and Infinity by Infinity are NaN.
\<close>

fun num_add :: "number \<Rightarrow> number \<Rightarrow> number" where
  "num_add (Fin x) (Fin y) = rnd (x + y)"
| "num_add NaN b = NaN"
| "num_add a NaN = NaN"
| "num_add PosInf NegInf = NaN"
| "num_add NegInf PosInf = NaN"
| "num_add PosInf b = PosInf"
| "num_add NegInf b = NegInf"
| "num_add (Fin x) b = b"


fun num_mul :: "number \<Rightarrow> number \<Rightarrow> number" where
  "num_mul (Fin x) (Fin y) = rnd (x * y)"
| "num_mul NaN b = NaN"
| "num_mul a NaN = NaN"
| "num_mul (Fin x) b = (if x = 0 then NaN else if 0 < x then b else neg b)"
| "num_mul a (Fin y) = (if y = 0 then NaN else if 0 < y then a else neg a)"
| "num_mul a b = (if a = b then PosInf else NegInf)"

fun num_div :: "number \<Rightarrow> number \<Rightarrow> number" where
  "num_div (Fin x) (Fin y) =
     (if y \<noteq> 0 then rnd (x / y)
      else if x = 0 then NaN else if 0 < x then PosInf else NegInf)"
| "num_div NaN b = NaN"
| "num_div a NaN = NaN"
| "num_div (Fin x) b = Fin 0"
| "num_div a (Fin y) = (if 0 \<le> y then a else neg a)"
| "num_div a b = NaN"

text \<open>\<^verbatim>\<open>a < b\<close>, \<^verbatim>\<open>a <= b\<close> and \<^verbatim>\<open>a > b\<close>: false as soon as one side is NaN.\<close>

fun num_lt :: "number \<Rightarrow> number \<Rightarrow> bool" where
  "num_lt (Fin x) (Fin y) = (x < y)"
| "num_lt NaN b = False"
| "num_lt a NaN = False"
| "num_lt NegInf b = (b \<noteq> NegInf)"
| "num_lt a PosInf = (a \<noteq> PosInf)"
| "num_lt a b = False"

definition num_le :: "number \<Rightarrow> number \<Rightarrow> bool" where
  "num_le a b \<longleftrightarrow> num_lt a b \<or> (a = b \<and> a \<noteq> NaN)"

definition num_gt :: "number \<Rightarrow> number \<Rightarrow> bool" where
  "num_gt a b = num_lt b a"

text \<open>Truthiness of a Number: NaN and zero are falsy.\<close>

fun truthy :: "number \<Rightarrow> bool" where
  "truthy NaN = False"
| "truthy (Fin x) = (x \<noteq> 0)"
| "truthy n = True"

section \<open>Data model\<close>

text \<open>
  The service stores two collections of documents: users (each with a playtime ledger,
  one entry per game) and products (games, each with an embedded list of reviews, a derived
  rating and a review count). Document ids are natural numbers.
\<close>

type_synonym oid = nat

text \<open>
  A value of a JSON request body field: absent (\<^verbatim>\<open>undefined\<close>), \<^verbatim>\<open>null\<close>, a boolean,
  a number literal, or any other value: a string, an array or an object. \<open>JNum q\<close> is the
  literal whose decimal text denotes \<open>q\<close>; \<^verbatim>\<open>JSON.parse\<close> makes of it the nearest double
  (\<^verbatim>\<open>1e999\<close> is Infinity). The handlers read a field only through \<^verbatim>\<open>Number(x)\<close> and the
  test \<^verbatim>\<open>x === undefined\<close>, and the validation chain of the play route only gives a verdict on
  it. So \<open>JOther n v\<close> stands for every string, array or object that \<^verbatim>\<open>Number\<close> converts to
  \<open>n\<close> and on which the verdict of that chain is \<open>v\<close>: \<^verbatim>\<open>'abc'\<close> and \<^verbatim>\<open>{}\<close> are
  \<open>JOther NaN False\<close>, \<^verbatim>\<open>'5'\<close> is \<open>JOther (Fin 5) True\<close>, \<^verbatim>\<open>''\<close> is
  \<open>JOther (Fin 0) False\<close>.
\<close>

datatype jsval = JUndefined | JNull | JBool bool | JNum rat | JOther number bool

fun Number :: "jsval \<Rightarrow> number" where
  "Number JUndefined = NaN"
| "Number JNull = Fin 0"
| "Number (JBool b) = Fin (if b then 1 else 0)"
| "Number (JNum q) = rnd q"
| "Number (JOther n v) = n"

record playTimeEntry =
  pt_product :: oid
  pt_time :: number

record user =
  u_id :: oid
  u_name :: string
  u_playTime :: "playTimeEntry list"

text \<open>
  A review in memory: \<open>None\<close> is a field that is \<^verbatim>\<open>undefined\<close>. The schema
  (models/Product.js, reviewSchema) declares user, name, rating and comment as required.
\<close>

record review =
  r_user :: oid
  r_name :: string
  r_rating :: "number option"
  r_comment :: "string option"

record product =
  p_id :: oid
  p_name :: string
  p_image :: string
  p_brand :: string
  p_category :: "string list"
  p_description :: string
  p_reviews :: "review list"
  p_rating :: number
  p_numReviews :: number
  p_disableRating :: bool
  p_disableCommenting :: bool

record db =
  users :: "user list"
  products :: "product list"

datatype exn = TypeError | ValidationError | CastError

section \<open>The persistence layer\<close>

definition Product_findById :: "db \<Rightarrow> oid \<Rightarrow> product option" where
  "Product_findById d pid = find (\<lambda>p. p_id p = pid) (products d)"

definition User_findById :: "db \<Rightarrow> oid \<Rightarrow> user option" where
  "User_findById d uid = find (\<lambda>u. u_id u = uid) (users d)"

text \<open>\<^verbatim>\<open>user.playTime.find(pt => pt.product.toString() === productId.toString())\<close>\<close>

definition gamePlayData :: "oid \<Rightarrow> user \<Rightarrow> playTimeEntry option" where
  "gamePlayData pid u = find (\<lambda>pt. pt_product pt = pid) (u_playTime u)"

text \<open>\<^verbatim>\<open>User.find({ 'playTime.product': productId })\<close>\<close>

definition User_find_played :: "db \<Rightarrow> oid \<Rightarrow> user list" where
  "User_find_played d pid = filter (\<lambda>u. list_ex (\<lambda>pt. pt_product pt = pid) (u_playTime u)) (users d)"

text \<open>\<^verbatim>\<open>Product.find({ 'reviews.user': userId })\<close>\<close>

definition Product_find_reviewed :: "db \<Rightarrow> oid \<Rightarrow> product list" where
  "Product_find_reviewed d uid = filter (\<lambda>p. list_ex (\<lambda>r. r_user r = uid) (p_reviews p)) (products d)"

text \<open>
  The validators that \<^verbatim>\<open>save()\<close> runs, as the schemas of models/Product.js declare them:
  a required Number must be present, a required String must be present and non-empty, the
  category holds one to five genres, and every embedded review is validated with its parent.
\<close>

definition valid_review :: "review \<Rightarrow> bool" where
  "valid_review r \<longleftrightarrow>
     r_name r \<noteq> [] \<and> r_rating r \<noteq> None \<and>
     (case r_comment r of None \<Rightarrow> False | Some c \<Rightarrow> c \<noteq> [])"

definition valid_product :: "product \<Rightarrow> bool" where
  "valid_product p \<longleftrightarrow>
     p_name p \<noteq> [] \<and> p_image p \<noteq> [] \<and> p_brand p \<noteq> [] \<and> p_description p \<noteq> [] \<and>
     1 \<le> length (p_category p) \<and> length (p_category p) \<le> 5 \<and>
     list_all valid_review (p_reviews p)"

text \<open>Saving a loaded product: validation, then the stored document with that id is replaced.\<close>

definition Product_save :: "db \<Rightarrow> product \<Rightarrow> exn + db" where
  "Product_save d p =
     (if valid_product p
      then Inr (d\<lparr>products := map (\<lambda>q. if p_id q = p_id p then p else q) (products d)\<rparr>)
      else Inl ValidationError)"

text \<open>Saving a new product inserts it.\<close>

definition Product_insert :: "db \<Rightarrow> product \<Rightarrow> exn + db" where
  "Product_insert d p =
     (if valid_product p then Inr (d\<lparr>products := products d @ [p]\<rparr>) else Inl ValidationError)"

definition Product_deleteOne :: "db \<Rightarrow> oid \<Rightarrow> db" where
  "Product_deleteOne d pid = d\<lparr>products := filter (\<lambda>q. p_id q \<noteq> pid) (products d)\<rparr>"

text \<open>
  The user schema (models/User.js) is not among the sources; saving a loaded user whose
  ledger has changed replaces the stored document.
\<close>

definition User_save :: "db \<Rightarrow> user \<Rightarrow> db" where
  "User_save d u = d\<lparr>users := map (\<lambda>v. if u_id v = u_id u then u else v) (users d)\<rparr>"

definition User_deleteOne :: "db \<Rightarrow> oid \<Rightarrow> db" where
  "User_deleteOne d uid = d\<lparr>users := filter (\<lambda>v. u_id v \<noteq> uid) (users d)\<rparr>"

section \<open>The rating aggregator\<close>

text \<open>
  \<^verbatim>\<open>updateWeightedProductRating\<close> exists twice. Both copies first add up the playtime of
  every user with a ledger entry for the game, then walk the reviews and add
  \<open>time * rating\<close> for each review whose author is among those users, has positive time
  and gave a positive rating. Both sums start at 0 and grow by one rounded addition per
  element, in the order of the lists.
\<close>

definition totalPlayTime_of :: "oid \<Rightarrow> user list \<Rightarrow> number" where
  "totalPlayTime_of pid us =
     foldl (\<lambda>total u. case gamePlayData pid u of
                         Some e \<Rightarrow> num_add total (pt_time e)
                       | None \<Rightarrow> total) (Fin 0) us"

text \<open>
  What a review adds once its author is found among the users who played:
  \<^verbatim>\<open>gamePlayData && gamePlayData.time > 0 && review.rating > 0\<close> guards
  \<^verbatim>\<open>weightedSum += gamePlayData.time * review.rating\<close>; an undefined rating compares false.
  \<open>None\<close> is a failed guard: nothing is added.
\<close>

definition review_weight :: "oid \<Rightarrow> user \<Rightarrow> review \<Rightarrow> number option" where
  "review_weight pid reviewingUser r =
     (case gamePlayData pid reviewingUser of
        None \<Rightarrow> None
      | Some e \<Rightarrow>
          (case r_rating r of
             None \<Rightarrow> None
           | Some x \<Rightarrow>
               if num_gt (pt_time e) (Fin 0) \<and> num_gt x (Fin 0)
               then Some (num_mul (pt_time e) x) else None))"

text \<open>The body of the loop over the reviews, for a review whose author has the id \<open>authorId\<close>.\<close>

definition add_review :: "oid \<Rightarrow> user list \<Rightarrow> oid \<Rightarrow> review \<Rightarrow> number \<Rightarrow> number" where
  "add_review pid usersWhoPlayed authorId r weightedSum =
     (case find (\<lambda>u. u_id u = authorId) usersWhoPlayed of
        None \<Rightarrow> weightedSum
      | Some reviewingUser \<Rightarrow>
          (case review_weight pid reviewingUser r of
             None \<Rightarrow> weightedSum
           | Some w \<Rightarrow> num_add weightedSum w))"

text \<open>
  The copy in the user controller (server.js) reads \<^verbatim>\<open>review.user\<close> as the stored id.
\<close>

fun weightedSum_uc :: "oid \<Rightarrow> user list \<Rightarrow> number \<Rightarrow> review list \<Rightarrow> number" where
  "weightedSum_uc pid usersWhoPlayed acc [] = acc"
| "weightedSum_uc pid usersWhoPlayed acc (r # rs) =
     weightedSum_uc pid usersWhoPlayed (add_review pid usersWhoPlayed (r_user r) r acc) rs"

text \<open>
  The copy in the product controller loads the product with
  \<^verbatim>\<open>populate('reviews.user', 'playTime')\<close>: the author of a review is replaced by the user
  document, or by null when no such user is stored, and \<^verbatim>\<open>review.user._id\<close> then throws.
\<close>

fun weightedSum_pc :: "db \<Rightarrow> oid \<Rightarrow> user list \<Rightarrow> number \<Rightarrow> review list \<Rightarrow> exn + number" where
  "weightedSum_pc d pid usersWhoPlayed acc [] = Inr acc"
| "weightedSum_pc d pid usersWhoPlayed acc (r # rs) =
     (case User_findById d (r_user r) of
        None \<Rightarrow> Inl TypeError
      | Some author \<Rightarrow>
          weightedSum_pc d pid usersWhoPlayed
            (add_review pid usersWhoPlayed (u_id author) r acc) rs)"

text \<open>
  \<^verbatim>\<open>product.rating = x; await product.save()\<close>. NaN does not cast to the Number path, which
  fails the save. Every exception inside either copy is caught and logged there: the database
  stays as it was. A product that is not found is logged and nothing is written.
\<close>

definition store_rating :: "db \<Rightarrow> product \<Rightarrow> number \<Rightarrow> db" where
  "store_rating d product x =
     (if x = NaN then d
      else (case Product_save d (product\<lparr>p_rating := x\<rparr>) of Inr d' \<Rightarrow> d' | Inl e \<Rightarrow> d))"

definition updateWeightedProductRating :: "db \<Rightarrow> oid \<Rightarrow> db" where
  "updateWeightedProductRating d productId =
     (case Product_findById d productId of
        None \<Rightarrow> d
      | Some product \<Rightarrow>
          (let usersWhoPlayed = User_find_played d productId in
           if usersWhoPlayed = [] then store_rating d product (Fin 0)
           else
             (let totalPlayTime = totalPlayTime_of productId usersWhoPlayed in
              case weightedSum_pc d productId usersWhoPlayed (Fin 0) (p_reviews product) of
                Inl e \<Rightarrow> d
              | Inr weightedSum \<Rightarrow>
                  store_rating d product
                    (if num_gt totalPlayTime (Fin 0)
                     then num_div weightedSum totalPlayTime else Fin 0))))"

definition updateWeightedProductRating_uc :: "db \<Rightarrow> oid \<Rightarrow> db" where
  "updateWeightedProductRating_uc d productId =
     (case Product_findById d productId of
        None \<Rightarrow> d
      | Some product \<Rightarrow>
          (let usersWhoPlayed = User_find_played d productId in
           if usersWhoPlayed = [] then store_rating d product (Fin 0)
           else
             (let totalPlayTime = totalPlayTime_of productId usersWhoPlayed;
                  weightedSum = weightedSum_uc productId usersWhoPlayed (Fin 0) (p_reviews product)
              in store_rating d product
                   (if num_gt totalPlayTime (Fin 0)
                    then num_div weightedSum totalPlayTime else Fin 0))))"

section \<open>Replies\<close>

text \<open>
  A reply is the HTTP status and the JSON body. The views of a review and of a product keep the
  fields the claims speak of; timestamps and the descriptive fields of the detailed view are
  left out. The fixed message texts are constructors;
  \<open>MustPlayAtLeast t\<close> is the text built from the threshold:
  \<^verbatim>\<open>You must play the game for at least ${requiredPlayTime} minutes to rate or comment.\<close>
  The success message of \<^verbatim>\<open>deleteUser\<close> is \<open>UserRemoved\<close>, a text and nothing else; the
  success body of \<^verbatim>\<open>deleteProduct\<close> is \<open>ProductRemoved n\<close>, a text and the field
  \<^verbatim>\<open>affectedUsers: n\<close>.
\<close>

datatype message =
    RatingOrCommentRequired
  | RatingBetween1And5
  | ProductNotFound
  | UserNotFound
  | GameNotFound
  | MustPlayAtLeast number
  | RatingDisabled
  | CommentingDisabled
  | CannotAddEmptyReview
  | ReviewUpdated
  | ReviewAdded
  | ValidPlaytimeRequired
  | CategoryOneToFive
  | ImageFormat
  | ImageRequired
  | UserRemoved
  | ServerError

record commentView =
  cv_user :: oid
  cv_userName :: string
  cv_comment :: "string option"
  cv_rating :: "number option"
  cv_userPlayTime :: number

record detailedProduct =
  dp_id :: oid
  dp_name :: string
  dp_playTime :: number
  dp_rating :: number
  dp_numReviews :: number
  dp_reviews :: "commentView list"

datatype body =
    Message message
  | PlaytimeUpdated number
  | ProductRemoved nat
  | ProductJson product
  | ValidationErrors
  | CommentsJson oid string "commentView list"
  | GamesJson "detailedProduct list"

datatype reply = Reply (status: nat) (body: body)

section \<open>Reviews\<close>

fun findIndex :: "('a \<Rightarrow> bool) \<Rightarrow> 'a list \<Rightarrow> nat option" where
  "findIndex P [] = None"
| "findIndex P (x # xs) = (if P x then Some 0 else map_option Suc (findIndex P xs))"

definition requiredPlayTime :: number where
  "requiredPlayTime = Fin 60"

text \<open>
  Assigning the converted rating to the Number path of a review: nothing when the request has
  no rating; NaN does not cast, which fails the save.
\<close>

fun assign_rating :: "number option \<Rightarrow> review \<Rightarrow> exn + review" where
  "assign_rating None r = Inr r"
| "assign_rating (Some NaN) r = Inl CastError"
| "assign_rating (Some n) r = Inr (r\<lparr>r_rating := Some n\<rparr>)"

fun assign_comment :: "string option \<Rightarrow> review \<Rightarrow> review" where
  "assign_comment None r = r"
| "assign_comment (Some c) r = r\<lparr>r_comment := Some c\<rparr>"

text \<open>
  The end of the handler: save the product; on success start the recomputation of the rating
  and answer. The recomputation is started without being awaited; the model runs it to its
  end before the next request. Any exception is answered with 500.
\<close>

definition save_and_reply :: "db \<Rightarrow> oid \<Rightarrow> exn + product \<Rightarrow> nat \<Rightarrow> message \<Rightarrow> db \<times> reply" where
  "save_and_reply d productId product st m =
     (case product of
        Inl e \<Rightarrow> (d, Reply 500 (Message ServerError))
      | Inr p \<Rightarrow>
          (case Product_save d p of
             Inl e \<Rightarrow> (d, Reply 500 (Message ServerError))
           | Inr d' \<Rightarrow> (updateWeightedProductRating d' productId, Reply st (Message m))))"

text \<open>
  \<^verbatim>\<open>POST /api/products/:id/reviews\<close>; \<open>userId\<close> is the identity the authentication
  middleware resolved, \<open>rating\<close> and \<open>comment\<close> are the body fields. The range test
  \<^verbatim>\<open>numericRating < 1 || numericRating > 5\<close> is false for NaN.
\<close>

definition addOrUpdateProductReview ::
  "db \<Rightarrow> oid \<Rightarrow> oid \<Rightarrow> jsval \<Rightarrow> string option \<Rightarrow> db \<times> reply" where
  "addOrUpdateProductReview d userId productId rating comment =
     (if rating = JUndefined \<and> comment = None
      then (d, Reply 400 (Message RatingOrCommentRequired))
      else
        (let numericRating = (if rating \<noteq> JUndefined then Some (Number rating) else None) in
         if (case numericRating of
               None \<Rightarrow> False
             | Some n \<Rightarrow> num_lt n (Fin 1) \<or> num_gt n (Fin 5))
         then (d, Reply 400 (Message RatingBetween1And5))
         else
           (case Product_findById d productId of
              None \<Rightarrow> (d, Reply 404 (Message ProductNotFound))
            | Some product \<Rightarrow>
                (case User_findById d userId of
                   None \<Rightarrow> (d, Reply 404 (Message UserNotFound))
                 | Some user \<Rightarrow>
                     (let userPlayTime =
                            (case gamePlayData productId user of
                               Some e \<Rightarrow> pt_time e
                             | None \<Rightarrow> Fin 0)
                      in
                      if num_lt userPlayTime requiredPlayTime
                      then (d, Reply 403 (Message (MustPlayAtLeast requiredPlayTime)))
                      else if numericRating \<noteq> None \<and> p_disableRating product
                      then (d, Reply 403 (Message RatingDisabled))
                      else if comment \<noteq> None \<and> p_disableCommenting product
                      then (d, Reply 403 (Message CommentingDisabled))
                      else
                        (case findIndex (\<lambda>r. r_user r = userId) (p_reviews product) of
                           Some reviewIndex \<Rightarrow>
                             save_and_reply d productId
                               (case assign_rating numericRating (p_reviews product ! reviewIndex) of
                                  Inl e \<Rightarrow> Inl e
                                | Inr r \<Rightarrow>
                                    Inr (product\<lparr>p_reviews := (p_reviews product)
                                           [reviewIndex := (assign_comment comment r)\<lparr>r_name := u_name user\<rparr>]\<rparr>))
                               200 ReviewUpdated
                         | None \<Rightarrow>
                             if numericRating = None \<and> comment = None
                             then (d, Reply 400 (Message CannotAddEmptyReview))
                             else
                               save_and_reply d productId
                                 (case assign_rating numericRating
                                         \<lparr>r_user = userId, r_name = u_name user,
                                          r_rating = None, r_comment = comment\<rparr> of
                                    Inl e \<Rightarrow> Inl e
                                  | Inr newReview \<Rightarrow>
                                      (let reviews' = p_reviews product @ [newReview] in
                                       Inr (product\<lparr>p_reviews := reviews',
                                              p_numReviews := Fin (of_nat (length reviews'))\<rparr>)))
                                 201 ReviewAdded))))))"

section \<open>The playtime ledger\<close>

text \<open>
  \<^verbatim>\<open>POST /api/products/:id/play\<close>. The handler converts the body field with
  \<^verbatim>\<open>Number(time)\<close> and rejects \<^verbatim>\<open>!playTime || playTime <= 0\<close>. An existing entry gets
  \<^verbatim>\<open>time += playTime\<close>, one rounded addition; a sum that is NaN does not cast to the Number
  path, which fails the save. Without an entry one is pushed with the converted value.
\<close>

definition record_play :: "oid \<Rightarrow> number \<Rightarrow> user \<Rightarrow> exn + user" where
  "record_play productId playTime user =
     (case findIndex (\<lambda>pt. pt_product pt = productId) (u_playTime user) of
        Some playTimeIndex \<Rightarrow>
          (let t = num_add (pt_time (u_playTime user ! playTimeIndex)) playTime in
           if t = NaN then Inl CastError
           else Inr (user\<lparr>u_playTime := (u_playTime user)
                       [playTimeIndex := (u_playTime user ! playTimeIndex)\<lparr>pt_time := t\<rparr>]\<rparr>))
      | None \<Rightarrow>
          Inr (user\<lparr>u_playTime := u_playTime user @ [\<lparr>pt_product = productId, pt_time = playTime\<rparr>]\<rparr>))"

definition playGame :: "db \<Rightarrow> oid \<Rightarrow> oid \<Rightarrow> jsval \<Rightarrow> db \<times> reply" where
  "playGame d userId productId time =
     (let playTime = Number time in
      if \<not> truthy playTime \<or> num_le playTime (Fin 0)
      then (d, Reply 400 (Message ValidPlaytimeRequired))
      else
        (case Product_findById d productId of
           None \<Rightarrow> (d, Reply 404 (Message GameNotFound))
         | Some product \<Rightarrow>
             (case User_findById d userId of
                None \<Rightarrow> (d, Reply 404 (Message UserNotFound))
              | Some user \<Rightarrow>
                  (case record_play productId playTime user of
                     Inl e \<Rightarrow> (d, Reply 500 (Message ServerError))
                   | Inr user' \<Rightarrow>
                       (let d' = updateWeightedProductRating (User_save d user') productId
                        in case gamePlayData productId user' of
                             Some updatedPlayTime \<Rightarrow>
                               (d', Reply 200 (PlaytimeUpdated (pt_time updatedPlayTime)))
                           | None \<Rightarrow> (d', Reply 500 (Message ServerError)))))))"

text \<open>
  The route (routes/productRoutes.js) puts the validation chain
  \<^verbatim>\<open>check('time').isNumeric().isInt({ min: 1 })\<close> before the handler. A chain records its
  errors on the request and passes on; a handler sees them only through
  \<^verbatim>\<open>validationResult(req)\<close>, which \<^verbatim>\<open>createProduct\<close> and \<^verbatim>\<open>updateProduct\<close>
  call and \<^verbatim>\<open>playGame\<close> does not. \<open>check_time\<close> holds when the chain records no error: a
  number passes when its decimal text is an integer of at least 1 (from \<open>10\<^sup>2\<^sup>1\<close> on the text
  of a Number has an exponent, and the text of Infinity has no digit).
\<close>

definition isInt :: "rat \<Rightarrow> bool" where
  "isInt x \<longleftrightarrow> of_int \<lfloor>x\<rfloor> = x"

definition check_time :: "jsval \<Rightarrow> bool" where
  "check_time v =
     (case v of
        JNum q \<Rightarrow> (case rnd q of Fin x \<Rightarrow> isInt x \<and> 1 \<le> x \<and> x < 10 ^ 21 | _ \<Rightarrow> False)
      | JOther n verdict \<Rightarrow> verdict
      | _ \<Rightarrow> False)"

definition route_play :: "db \<Rightarrow> oid \<Rightarrow> oid \<Rightarrow> jsval \<Rightarrow> bool \<times> (db \<times> reply)" where
  "route_play d userId productId time = (check_time time, playGame d userId productId time)"


section \<open>Product administration\<close>

text \<open>
  The body of \<^verbatim>\<open>POST /api/products\<close> and \<^verbatim>\<open>PUT /api/products/:id\<close>. The handlers
  take the named fields out of the body and keep the rest as \<^verbatim>\<open>otherFields\<close>, which they
  copy onto the product. Of those additional fields the model keeps the two that address Number
  paths of the schema, \<open>numReviews\<close> and \<open>rating\<close>, each a number literal when present.
\<close>

record productBody =
  b_name :: "string option"
  b_description :: "string option"
  b_image :: "string option"
  b_brand :: "string option"
  b_category :: "string list option"
  b_disableRating :: "bool option"
  b_disableCommenting :: "bool option"
  b_numReviews :: "rat option"
  b_rating :: "rat option"

definition notEmpty :: "string option \<Rightarrow> bool" where
  "notEmpty s = (case s of None \<Rightarrow> False | Some x \<Rightarrow> x \<noteq> [])"

text \<open>The validation chains of the two routes; both handlers consult the result.\<close>

definition check_create :: "productBody \<Rightarrow> bool" where
  "check_create b \<longleftrightarrow>
     notEmpty (b_name b) \<and> notEmpty (b_description b) \<and> notEmpty (b_image b) \<and>
     notEmpty (b_brand b) \<and>
     (case b_category b of None \<Rightarrow> False | Some c \<Rightarrow> 1 \<le> length c \<and> length c \<le> 5)"

definition check_update :: "productBody \<Rightarrow> bool" where
  "check_update b \<longleftrightarrow>
     notEmpty (b_name b) \<and> notEmpty (b_description b) \<and> notEmpty (b_image b) \<and>
     notEmpty (b_brand b) \<and>
     (case b_category b of None \<Rightarrow> True | Some c \<Rightarrow> 1 \<le> length c \<and> length c \<le> 5)"

definition startsWith :: "string \<Rightarrow> string \<Rightarrow> bool" where
  "startsWith s p = (take (length p) s = p)"

definition isValidFormat :: "string \<Rightarrow> bool" where
  "isValidFormat img \<longleftrightarrow>
     startsWith img ''data:image/png;base64,'' \<or>
     startsWith img ''data:image/jpeg;base64,'' \<or>
     startsWith img ''data:image/jpg;base64,''"

text \<open>\<^verbatim>\<open>x || y\<close> on a string field: the empty string and undefined are falsy.\<close>

definition str_or :: "string option \<Rightarrow> string \<Rightarrow> string" where
  "str_or s dflt = (case s of None \<Rightarrow> dflt | Some x \<Rightarrow> if x \<noteq> [] then x else dflt)"

definition opt_or :: "'a option \<Rightarrow> 'a \<Rightarrow> 'a" where
  "opt_or s dflt = (case s of None \<Rightarrow> dflt | Some x \<Rightarrow> x)"

text \<open>\<open>newId\<close> is the id the store gives the new document.\<close>

definition createProduct :: "db \<Rightarrow> oid \<Rightarrow> productBody \<Rightarrow> db \<times> reply" where
  "createProduct d newId b =
     (if \<not> check_create b then (d, Reply 400 ValidationErrors)
      else
        (case b_category b of
           None \<Rightarrow> (d, Reply 400 (Message CategoryOneToFive))
         | Some category \<Rightarrow>
             if length category < 1 \<or> length category > 5
             then (d, Reply 400 (Message CategoryOneToFive))
             else if notEmpty (b_image b) \<and> startsWith (opt_or (b_image b) []) ''data:image'' \<and>
                     \<not> isValidFormat (opt_or (b_image b) [])
             then (d, Reply 400 (Message ImageFormat))
             else if \<not> notEmpty (b_image b)
             then (d, Reply 400 (Message ImageRequired))
             else
               (let product =
                      \<lparr>p_id = newId, p_name = opt_or (b_name b) [],
                       p_image = opt_or (b_image b) [], p_brand = opt_or (b_brand b) [],
                       p_category = category, p_description = opt_or (b_description b) [],
                       p_reviews = [],
                       p_rating = opt_or (map_option rnd (b_rating b)) (Fin 0),
                       p_numReviews = opt_or (map_option rnd (b_numReviews b)) (Fin 0),
                       p_disableRating = opt_or (b_disableRating b) False,
                       p_disableCommenting = opt_or (b_disableCommenting b) False\<rparr>
                in case Product_insert d product of
                     Inl e \<Rightarrow> (d, Reply 500 (Message ServerError))
                   | Inr d' \<Rightarrow> (d', Reply 201 (ProductJson product)))))"

definition updateProduct :: "db \<Rightarrow> oid \<Rightarrow> productBody \<Rightarrow> db \<times> reply" where
  "updateProduct d productId b =
     (if \<not> check_update b then (d, Reply 400 ValidationErrors)
      else if (case b_category b of None \<Rightarrow> False | Some c \<Rightarrow> length c < 1 \<or> length c > 5)
      then (d, Reply 400 (Message CategoryOneToFive))
      else if notEmpty (b_image b) \<and> startsWith (opt_or (b_image b) []) ''data:image'' \<and>
              \<not> isValidFormat (opt_or (b_image b) [])
      then (d, Reply 400 (Message ImageFormat))
      else
        (case Product_findById d productId of
           None \<Rightarrow> (d, Reply 404 (Message ProductNotFound))
         | Some product \<Rightarrow>
             (let updatedProduct =
                    product\<lparr>p_name := str_or (b_name b) (p_name product),
                            p_description := str_or (b_description b) (p_description product),
                            p_image := str_or (b_image b) (p_image product),
                            p_brand := str_or (b_brand b) (p_brand product),
                            p_category := opt_or (b_category b) (p_category product),
                            p_disableRating := opt_or (b_disableRating b) (p_disableRating product),
                            p_disableCommenting :=
                              opt_or (b_disableCommenting b) (p_disableCommenting product),
                            p_numReviews :=
                              opt_or (map_option rnd (b_numReviews b)) (p_numReviews product),
                            p_rating := opt_or (map_option rnd (b_rating b)) (p_rating product)\<rparr>
              in case Product_save d updatedProduct of
                   Inl e \<Rightarrow> (d, Reply 500 (Message ServerError))
                 | Inr d' \<Rightarrow> (d', Reply 200 (ProductJson updatedProduct)))))"

section \<open>Deletion cleanup\<close>

text \<open>
  \<^verbatim>\<open>DELETE /api/users/:id\<close>: the loop over the products that hold a review of the user,
  each as it was loaded by the query before the loop. An exception leaves the loop; what was
  saved before it stays saved. The success reply is
  \<^verbatim>\<open>res.json({ message: 'User removed successfully and all associated data cleaned up' })\<close>.
\<close>

fun deleteUser_loop :: "db \<Rightarrow> oid \<Rightarrow> product list \<Rightarrow> exn option \<times> db" where
  "deleteUser_loop d userId [] = (None, d)"
| "deleteUser_loop d userId (product # ps) =
     (let reviews' = filter (\<lambda>review. r_user review \<noteq> userId) (p_reviews product);
          product' = product\<lparr>p_reviews := reviews',
                              p_numReviews := Fin (of_nat (length reviews'))\<rparr>
      in case Product_save d product' of
           Inl e \<Rightarrow> (Some e, d)
         | Inr d1 \<Rightarrow> deleteUser_loop (updateWeightedProductRating_uc d1 (p_id product)) userId ps)"

definition deleteUser :: "db \<Rightarrow> oid \<Rightarrow> db \<times> reply" where
  "deleteUser d userId =
     (case User_findById d userId of
        None \<Rightarrow> (d, Reply 404 (Message UserNotFound))
      | Some user \<Rightarrow>
          (case deleteUser_loop d userId (Product_find_reviewed d userId) of
             (Some e, d') \<Rightarrow> (d', Reply 500 (Message ServerError))
           | (None, d') \<Rightarrow> (User_deleteOne d' userId, Reply 200 (Message UserRemoved))))"

text \<open>
  \<^verbatim>\<open>DELETE /api/products/:id\<close>: the reply carries \<^verbatim>\<open>affectedUsers\<close>, the number of
  users whose ledger held the game. The query for those users is built with
  \<^verbatim>\<open>mongoose.Types.ObjectId(productId)\<close>, called without \<^verbatim>\<open>new\<close> (\<^verbatim>\<open>deleteUser\<close> writes
  \<^verbatim>\<open>new mongoose.Types.ObjectId(userId)\<close>). Up to Mongoose 6 \<^verbatim>\<open>ObjectId\<close> may be called as
  a function; from Mongoose 7 on it is a class, and the call throws a TypeError, which the
  handler answers with 500 before anything is removed. The package manifest is not among the
  sources, so whether the call is allowed is the parameter \<open>objectIdCallable\<close>.
\<close>

definition deleteProduct :: "bool \<Rightarrow> db \<Rightarrow> oid \<Rightarrow> db \<times> reply" where
  "deleteProduct objectIdCallable d productId =
     (case Product_findById d productId of
        None \<Rightarrow> (d, Reply 404 (Message ProductNotFound))
      | Some product \<Rightarrow>
          if \<not> objectIdCallable then (d, Reply 500 (Message ServerError))
          else
            (let usersWithPlaytime = User_find_played d productId;
                 d1 = foldl (\<lambda>acc user.
                        User_save acc
                          (user\<lparr>u_playTime :=
                             filter (\<lambda>pt. pt_product pt \<noteq> productId) (u_playTime user)\<rparr>))
                        d usersWithPlaytime
             in (Product_deleteOne d1 productId,
                 Reply 200 (ProductRemoved (length usersWithPlaytime)))))"

section \<open>Read projections\<close>











section \<open>The rating as the specification words it\<close>







text \<open>
  The value both copies of the aggregator compute from the stored users and the reviews of
  the product, when no exception interrupts them.
\<close>

definition computed_rating :: "user list \<Rightarrow> oid \<Rightarrow> review list \<Rightarrow> number" where
  "computed_rating us pid rs =
     (let played = filter (\<lambda>u. gamePlayData pid u \<noteq> None) us in
      if played = [] then Fin 0
      else if num_gt (totalPlayTime_of pid played) (Fin 0)
      then num_div (weightedSum_uc pid played (Fin 0) rs) (totalPlayTime_of pid played)
      else Fin 0)"

section \<open>Observations used by the claims\<close>






text \<open>The cumulative time stored for a user and a game; 0 when there is no entry.\<close>

definition stored_time :: "db \<Rightarrow> oid \<Rightarrow> oid \<Rightarrow> number" where
  "stored_time d userId productId =
     (case User_findById d userId of
        None \<Rightarrow> Fin 0
      | Some user \<Rightarrow> (case gamePlayData productId user of None \<Rightarrow> Fin 0 | Some e \<Rightarrow> pt_time e))"




text \<open>
  The invariant of the review store: the count of a product is the length of its review list,
  and no user has two reviews of the same product.
\<close>

definition review_inv :: "product \<Rightarrow> bool" where
  "review_inv q \<longleftrightarrow>
     p_numReviews q = Fin (of_nat (length (p_reviews q))) \<and> distinct (map r_user (p_reviews q))"

definition db_inv :: "db \<Rightarrow> bool" where
  "db_inv d = list_all review_inv (products d)"

section \<open>Example data\<close>

text \<open>
  Two players of one game: Alice with 120 minutes and a rating of 5, Bob with 80 minutes and
  a rating of 3.
\<close>

definition ex_alice :: user where
  "ex_alice = \<lparr>u_id = 1, u_name = ''Alice'', u_playTime = [\<lparr>pt_product = 10, pt_time = Fin 120\<rparr>]\<rparr>"

definition ex_bob :: user where
  "ex_bob = \<lparr>u_id = 2, u_name = ''Bob'', u_playTime = [\<lparr>pt_product = 10, pt_time = Fin 80\<rparr>]\<rparr>"

definition ex_game :: product where
  "ex_game =
     \<lparr>p_id = 10, p_name = ''Cyber Odyssey'', p_image = ''cover.png'', p_brand = ''Neon Dreams'',
      p_category = [''RPG''], p_description = ''A city to explore'',
      p_reviews =
        [\<lparr>r_user = 1, r_name = ''Alice'', r_rating = Some (Fin 5), r_comment = Some ''Amazing''\<rparr>,
         \<lparr>r_user = 2, r_name = ''Bob'', r_rating = Some (Fin 3), r_comment = Some ''Solid''\<rparr>],
      p_rating = Fin 0, p_numReviews = Fin 2, p_disableRating = False,
      p_disableCommenting = False\<rparr>"

definition ex_db :: db where
  "ex_db = \<lparr>users = [ex_alice, ex_bob], products = [ex_game]\<rparr>"

text \<open>The same game before anybody reviewed it.\<close>

definition ex_new_game :: product where
  "ex_new_game = ex_game\<lparr>p_reviews := [], p_numReviews := Fin 0\<rparr>"

definition ex_new_db :: db where
  "ex_new_db = \<lparr>users = [ex_alice, ex_bob], products = [ex_new_game]\<rparr>"

text \<open>Dora has played 59 minutes, Eve exactly 60.\<close>

definition ex_dora :: user where
  "ex_dora = \<lparr>u_id = 4, u_name = ''Dora'', u_playTime = [\<lparr>pt_product = 10, pt_time = Fin 59\<rparr>]\<rparr>"

definition ex_eve :: user where
  "ex_eve = \<lparr>u_id = 5, u_name = ''Eve'', u_playTime = [\<lparr>pt_product = 10, pt_time = Fin 60\<rparr>]\<rparr>"

definition ex_gate_db :: db where
  "ex_gate_db = \<lparr>users = [ex_dora, ex_eve], products = [ex_new_game]\<rparr>"












text \<open>An admin request that names the required fields and also carries \<open>numReviews: 7\<close>.\<close>

definition ex_body :: productBody where
  "ex_body =
     \<lparr>b_name = Some ''Cyber Odyssey'', b_description = Some ''A city to explore'',
      b_image = Some ''cover.png'', b_brand = Some ''Neon Dreams'', b_category = Some [''RPG''],
      b_disableRating = None, b_disableCommenting = None,
      b_numReviews = Some 7, b_rating = None\<rparr>"

text \<open>The same request without the additional field.\<close>

definition ex_plain_body :: productBody where
  "ex_plain_body = ex_body\<lparr>b_numReviews := None\<rparr>"
section \<open>Facts about rounding\<close>

subsection \<open>Rounding to the nearest integer\<close>

lemma rhe_of_int [simp]: "rhe (of_int k) = k"
  by (simp add: rhe_def)






subsection \<open>The exponent of the last place\<close>

lemma bitlen_eqI:
  assumes "2 ^ k \<le> s" and "s < 2 ^ Suc k"
  shows "bitlen s = int k + 1"
proof (rule antisym)
  show "bitlen s \<le> int k + 1"
    using assms(2) by (simp add: bitlen_le_iff_power nat_add_distrib)
  show "int k + 1 \<le> bitlen s"
    using assms(1) by (simp add: bitlen_ge_iff_power nat_add_distrib)
qed

lemma powi_split:
  "0 \<le> e + 1074 \<Longrightarrow> (2::rat) powi e * 2 ^ 1074 = 2 ^ nat (e + 1074)"
proof -
  assume h: "0 \<le> e + 1074"
  have "(2::rat) powi e * 2 ^ 1074 = 2 powi e * 2 powi 1074" by simp
  also have "\<dots> = 2 powi (e + 1074)" by (simp add: power_int_add)
  also have "\<dots> = 2 ^ nat (e + 1074)" using h by (simp add: power_int_def)
  finally show ?thesis .
qed

lemma scaled_bitlen:
  fixes a :: rat
  assumes lo: "2 powi e \<le> a" and hi: "a < 2 powi (e + 1)" and e: "- 1074 \<le> e"
  shows "bitlen \<lfloor>a * 2 ^ 1074\<rfloor> = e + 1075"
proof -
  let ?k = "nat (e + 1074)"
  have "(2::rat) ^ ?k \<le> a * 2 ^ 1074"
    using lo e powi_split [of e] by (simp add: mult_right_mono flip: powi_split)
  then have 1: "2 ^ ?k \<le> \<lfloor>a * 2 ^ 1074\<rfloor>"
    by (simp add: le_floor_iff)
  have "a * 2 ^ 1074 < 2 powi (e + 1) * 2 ^ 1074"
    using hi by simp
  also have "\<dots> = 2 ^ nat (e + 1 + 1074)"
    using e by (intro powi_split) simp
  also have "nat (e + 1 + 1074) = Suc ?k" using e by simp
  finally have 2: "\<lfloor>a * 2 ^ 1074\<rfloor> < 2 ^ Suc ?k"
    by (simp add: floor_less_iff)
  from bitlen_eqI [OF 1 2] e show ?thesis by simp
qed

lemma quantum_eq:
  assumes "2 powi e \<le> a" and "a < 2 powi (e + 1)" and "- 1074 \<le> e"
  shows "quantum a = max e (- 1022) - 52"
  unfolding quantum_def scaled_bitlen [OF assms] by simp



subsection \<open>Rounding\<close>

lemma two_powi_pos [simp]: "0 < (2::rat) powi q"
  by simp

lemma round_pos_exact:
  assumes "a / 2 powi quantum a = of_int k" and "a < 2 ^ 1024"
  shows "round_pos a = Fin a"
proof -
  have r: "rhe (a / 2 powi quantum a) = k" by (simp add: assms(1))
  have "a = of_int k * 2 powi quantum a"
    using assms(1) by (simp add: field_simps)
  then have v: "of_int k * 2 powi quantum a = a" by simp
  show ?thesis
    unfolding round_pos_def Let_def r v using assms(2) by simp
qed

lemma quantum_le0:
  assumes "0 \<le> a" and "a < 2 ^ 53"
  shows "quantum a \<le> 0"
proof -
  have "a * 2 ^ 1074 < 2 ^ 53 * 2 ^ 1074" using assms by simp
  also have "\<dots> = (2::rat) ^ 1127" by (simp flip: power_add)
  finally have "\<lfloor>a * 2 ^ 1074\<rfloor> < 2 ^ 1127" by (simp add: floor_less_iff)
  then have "bitlen \<lfloor>a * 2 ^ 1074\<rfloor> \<le> 1127" by (simp add: bitlen_le_iff_power)
  then show ?thesis by (simp add: quantum_def)
qed

lemma powi_nonpos: "q \<le> 0 \<Longrightarrow> (2::rat) powi q = 1 / 2 ^ nat (- q)"
  by (simp add: power_int_def field_simps)

lemma round_pos_nat:
  assumes "n < 2 ^ 53"
  shows "round_pos (of_nat n) = Fin (of_nat n)"
proof (rule round_pos_exact)
  let ?q = "quantum (of_nat n)"
  have "(of_nat n :: rat) < 2 ^ 53" using assms
    by (metis of_nat_less_iff of_nat_numeral of_nat_power)
  then have q: "?q \<le> 0" by (intro quantum_le0) simp_all
  show "(of_nat n :: rat) / 2 powi ?q = of_int (int n * 2 ^ nat (- ?q))"
    by (simp add: powi_nonpos [OF q])
  have "(of_nat n :: rat) < 2 ^ 53" by fact
  also have "\<dots> < 2 ^ 1024" by simp
  finally show "(of_nat n :: rat) < 2 ^ 1024" .
qed

lemma quantum_2_53: "quantum (2 ^ 53) = 1"
proof -
  have "quantum (2 ^ 53) = max 53 (- 1022) - 52"
    by (rule quantum_eq) (simp_all add: power_int_def)
  then show ?thesis by simp
qed

lemma round_pos_2_53: "round_pos (2 ^ 53) = Fin (2 ^ 53)"
proof (rule round_pos_exact)
  show "(2::rat) ^ 53 / 2 powi quantum (2 ^ 53) = of_int (2 ^ 52)"
    unfolding quantum_2_53 by simp
  show "(2::rat) ^ 53 < 2 ^ 1024" by simp
qed

lemma rnd_nat:
  assumes "n \<le> 2 ^ 53"
  shows "rnd (of_nat n) = Fin (of_nat n)"
proof (cases "n = 0")
  case True
  then show ?thesis by (simp add: rnd_def)
next
  case False
  show ?thesis
  proof (cases "n = 2 ^ 53")
    case True
    then show ?thesis using round_pos_2_53 by (simp add: rnd_def)
  next
    case False
    with assms have "n < 2 ^ 53" by simp
    with \<open>n \<noteq> 0\<close> show ?thesis by (simp add: rnd_def round_pos_nat)
  qed
qed

lemma rnd_0 [simp]: "rnd 0 = Fin 0"
  by (simp add: rnd_def)

lemma rnd_1 [simp]: "rnd 1 = Fin 1"
  using rnd_nat [of 1] by simp

lemma rnd_numeral [simp]:
  "numeral k \<le> (9007199254740992::nat) \<Longrightarrow> rnd (numeral k) = Fin (numeral k)"
  using rnd_nat [of "numeral k"] by simp

lemma neg_neg [simp]: "neg (neg n) = n"
  by (cases n) auto

lemma rnd_neg: "rnd (- x) = neg (rnd x)"
  by (simp add: rnd_def)

lemma rnd_neg_numeral [simp]:
  "numeral k \<le> (9007199254740992::nat) \<Longrightarrow> rnd (- numeral k) = Fin (- numeral k)"
  by (simp add: rnd_neg)



subsection \<open>Bounds\<close>

lemma rnd_not_NaN [simp]: "rnd x \<noteq> NaN"
  by (auto simp: rnd_def round_pos_def Let_def)



subsection \<open>The grid of the doubles\<close>







subsection \<open>Rounding a given value\<close>

lemma round_pos_at:
  assumes "2 powi e \<le> a" and "a < 2 powi (e + 1)" and "- 1022 \<le> e"
    and "rhe (a / 2 powi (e - 52)) = n" and "of_int n * 2 powi (e - 52) = y" and "y < 2 ^ 1024"
  shows "round_pos a = Fin y"
proof -
  have "quantum a = max e (- 1022) - 52"
    using assms(1,2) by (rule quantum_eq) (use assms(3) in simp)
  with assms(3) have q: "quantum a = e - 52" by simp
  show ?thesis unfolding round_pos_def Let_def q assms(4) assms(5) using assms(6) by simp
qed

lemma rhe_numeral [simp]: "rhe (numeral k) = numeral k"
  using rhe_of_int [of "numeral k"] by simp

lemma rnd_5_2: "rnd (5 / 2) = Fin (5 / 2)"
proof -
  have "round_pos (5 / 2) = Fin (5 / 2)"
    by (rule round_pos_at [where e = 1 and n = "5 * 2 ^ 50"]) simp_all
  then show ?thesis by (simp add: rnd_def)
qed






subsection \<open>Whole numbers\<close>




lemma sum_list_Nats: "\<forall>x\<in>set xs. f x \<in> \<nat> \<Longrightarrow> (\<Sum>x\<leftarrow>xs. (f x :: rat)) \<in> \<nat>"
  by (induction xs) auto

subsection \<open>Comparisons\<close>

lemma num_gt_Fin [simp]: "num_gt (Fin x) (Fin y) = (y < x)"
  by (simp add: num_gt_def)

lemma num_le_Fin [simp]: "num_le (Fin x) (Fin y) = (x \<le> y)"
  by (auto simp: num_le_def)

lemma num_lt_NaN_right [simp]: "\<not> num_lt a NaN"
  by (cases a) auto

lemma num_gt_NaN [simp]: "\<not> num_gt NaN b" "\<not> num_gt a NaN"
  by (simp_all add: num_gt_def)

lemma num_le_NaN [simp]: "\<not> num_le NaN b" "\<not> num_le a NaN"
  by (auto simp: num_le_def)

lemma num_lt_irrefl [simp]: "\<not> num_lt a a"
  by (cases a) auto







section \<open>Facts about the aggregator\<close>






lemma Product_findById_id: "Product_findById d k = Some p \<Longrightarrow> p_id p = k"
  by (auto simp: Product_findById_def find_Some_iff)


lemma played_filter:
  "User_find_played d pid = filter (\<lambda>u. gamePlayData pid u \<noteq> None) (users d)"
  by (auto simp: User_find_played_def gamePlayData_def find_None_iff list_ex_iff intro: filter_cong)

lemma valid_rating_upd [simp]: "valid_product (p\<lparr>p_rating := x\<rparr>) = valid_product p"
  by (simp add: valid_product_def)

lemma store_rating_valid:
  "valid_product p \<Longrightarrow> x \<noteq> NaN \<Longrightarrow>
   store_rating d p x =
     d\<lparr>products := map (\<lambda>q. if p_id q = p_id p then p\<lparr>p_rating := x\<rparr> else q) (products d)\<rparr>"
  by (simp add: store_rating_def Product_save_def)

lemma store_rating_invalid: "\<not> valid_product p \<or> x = NaN \<Longrightarrow> store_rating d p x = d"
  by (auto simp: store_rating_def Product_save_def)

lemma uc_computed:
  "Product_findById d pid = Some p \<Longrightarrow>
   updateWeightedProductRating_uc d pid = store_rating d p (computed_rating (users d) pid (p_reviews p))"
  by (simp add: updateWeightedProductRating_uc_def computed_rating_def played_filter Let_def)


lemma find_map_upd:
  "p_id p' = pid \<Longrightarrow>
   find (\<lambda>q. p_id q = pid) (map (\<lambda>q. if p_id q = pid then p' else q) xs) =
   (case find (\<lambda>q. p_id q = pid) xs of None \<Rightarrow> None | Some q \<Rightarrow> Some p')"
  by (induction xs) auto

lemma map_upd_idem:
  "p_id p' = pid \<Longrightarrow>
   map (\<lambda>q. if p_id q = pid then p' else q) (map (\<lambda>q. if p_id q = pid then p' else q) xs) =
   map (\<lambda>q. if p_id q = pid then p' else q) xs"
  by (induction xs) auto

lemma users_store_rating [simp]: "users (store_rating d p x) = users d"
  by (simp add: store_rating_def Product_save_def)

lemma store_twice:
  assumes "Product_findById d pid = Some p"
  shows "\<exists>p'. Product_findById (store_rating d p x) pid = Some p' \<and>
              p_reviews p' = p_reviews p \<and>
              store_rating (store_rating d p x) p' x = store_rating d p x"
proof (cases "valid_product p \<and> x \<noteq> NaN")
  case False
  then have "store_rating d p x = d" by (intro store_rating_invalid) blast
  with assms show ?thesis by simp
next
  case True
  then have valid: "valid_product p" and x: "x \<noteq> NaN" by simp_all
  have pid: "p_id p = pid" using assms by (rule Product_findById_id)
  let ?p' = "p\<lparr>p_rating := x\<rparr>"
  have "Product_findById (store_rating d p x) pid = Some ?p'"
    using assms pid valid x
    by (simp add: store_rating_valid Product_findById_def find_map_upd)
  moreover have "store_rating (store_rating d p x) ?p' x = store_rating d p x"
    using pid valid x by (simp add: store_rating_valid map_upd_idem)
  ultimately show ?thesis by simp
qed

lemma played_store_rating [simp]:
  "User_find_played (store_rating d p x) pid = User_find_played d pid"
  by (simp add: User_find_played_def)

lemma weightedSum_pc_store_rating [simp]:
  "weightedSum_pc (store_rating d p x) pid us acc rs = weightedSum_pc d pid us acc rs"
  by (induction rs arbitrary: acc) (auto simp: User_findById_def split: option.splits)


subsection \<open>Whole minutes and whole ratings: the sums are exact\<close>












subsection \<open>Bounds of the exact average\<close>




subsection \<open>The example games\<close>

lemmas ex_defs = ex_db_def ex_game_def ex_alice_def ex_bob_def

lemma ex_found: "Product_findById ex_db 10 = Some ex_game"
  by (simp add: Product_findById_def ex_defs)





























section \<open>Claims about the aggregator\<close>

text \<open>
  Claim C5. For every game, running the rating recomputation twice, with no change to any
  playtime entry or to the review list in between, leaves the same rating as running it
  once. It holds for both copies of the aggregator and for the whole database, not only the
  rating: the second run finds the same users and reviews and stores the value already there.
\<close>

theorem recompute_idempotent:
  "updateWeightedProductRating (updateWeightedProductRating d pid) pid =
     updateWeightedProductRating d pid \<and>
   updateWeightedProductRating_uc (updateWeightedProductRating_uc d pid) pid =
     updateWeightedProductRating_uc d pid"
proof
  show "updateWeightedProductRating (updateWeightedProductRating d pid) pid =
        updateWeightedProductRating d pid"
  proof (cases "Product_findById d pid")
    case None
    then show ?thesis by (simp add: updateWeightedProductRating_def)
  next
    case (Some p)
    let ?us = "User_find_played d pid"
    show ?thesis
    proof (cases "?us = []")
      case True
      with Some have d': "updateWeightedProductRating d pid = store_rating d p (Fin 0)"
        by (simp add: updateWeightedProductRating_def)
      from store_twice [OF Some, of "Fin 0"] obtain p' where
        "Product_findById (store_rating d p (Fin 0)) pid = Some p'"
        "store_rating (store_rating d p (Fin 0)) p' (Fin 0) = store_rating d p (Fin 0)" by blast
      with True show ?thesis unfolding d'
        by (simp add: updateWeightedProductRating_def)
    next
      case False
      show ?thesis
      proof (cases "weightedSum_pc d pid ?us (Fin 0) (p_reviews p)")
        case (Inl e)
        with Some False have "updateWeightedProductRating d pid = d"
          by (simp add: updateWeightedProductRating_def)
        then show ?thesis by simp
      next
        case (Inr ws)
        let ?x = "if num_gt (totalPlayTime_of pid ?us) (Fin 0)
                  then num_div ws (totalPlayTime_of pid ?us) else Fin 0"
        from Some False Inr have d': "updateWeightedProductRating d pid = store_rating d p ?x"
          by (simp add: updateWeightedProductRating_def Let_def)
        from store_twice [OF Some, of ?x] obtain p' where
          "Product_findById (store_rating d p ?x) pid = Some p'"
          "p_reviews p' = p_reviews p"
          "store_rating (store_rating d p ?x) p' ?x = store_rating d p ?x" by blast
        with False Inr show ?thesis unfolding d'
          by (simp add: updateWeightedProductRating_def Let_def)
      qed
    qed
  qed
next
  show "updateWeightedProductRating_uc (updateWeightedProductRating_uc d pid) pid =
        updateWeightedProductRating_uc d pid"
  proof (cases "Product_findById d pid")
    case None
    then show ?thesis by (simp add: updateWeightedProductRating_uc_def)
  next
    case (Some p)
    let ?x = "computed_rating (users d) pid (p_reviews p)"
    from store_twice [OF Some, of ?x] obtain p' where
      "Product_findById (store_rating d p ?x) pid = Some p'"
      "p_reviews p' = p_reviews p"
      "store_rating (store_rating d p ?x) p' ?x = store_rating d p ?x" by blast
    then show ?thesis
      using uc_computed [of "store_rating d p ?x" pid p']
      by (simp add: uc_computed [OF Some])
  qed
qed







section \<open>Facts about the review gate\<close>







lemmas review_defs = addOrUpdateProductReview_def save_and_reply_def Product_findById_def
  User_findById_def gamePlayData_def requiredPlayTime_def Product_save_def valid_product_def
  valid_review_def updateWeightedProductRating_def User_find_played_def totalPlayTime_of_def
  add_review_def review_weight_def store_rating_def

lemmas ex_more_defs = ex_new_db_def ex_new_game_def ex_gate_db_def ex_dora_def ex_eve_def

lemma floor_5_2: "\<lfloor>(5::rat) / 2\<rfloor> = 2"
  by linarith

lemma not_int_5_2: "\<not> isInt (5 / 2)"
  by (simp add: isInt_def floor_5_2)

text \<open>
  A review that lacks a required field is never saved; a first review with a comment and no
  rating leaves the database as it was.
\<close>

lemma invalid_review_not_saved:
  assumes "\<not> valid_review r" and "r \<in> set (p_reviews p)"
  shows "Product_save d p = Inl ValidationError"
  using assms by (auto simp: Product_save_def valid_product_def list_all_iff)

lemma comment_only_creates_nothing:
  assumes "Product_findById d productId = Some product"
    and "findIndex (\<lambda>r. r_user r = userId) (p_reviews product) = None"
  shows "fst (addOrUpdateProductReview d userId productId JUndefined comment) = d"
proof -
  have nosave: "Product_save d
      (product\<lparr>p_reviews := p_reviews product @
                 [\<lparr>r_user = userId, r_name = n, r_rating = None, r_comment = c\<rparr>],
               p_numReviews := k\<rparr>) = Inl ValidationError" for n k c
    by (rule invalid_review_not_saved
          [where r = "\<lparr>r_user = userId, r_name = n, r_rating = None, r_comment = c\<rparr>"])
       (simp_all add: valid_review_def)
  from assms show ?thesis
    by (auto simp: addOrUpdateProductReview_def save_and_reply_def Let_def nosave
        split: option.splits)
qed

section \<open>Claims about the review gate\<close>




text \<open>
  Claim C3 says that a review can be created with a comment only and completed by a later
  request with a rating only. On the code the first request is answered 500 and stores
  nothing: the controller builds the review with an undefined rating, and the review schema
  requires both rating and comment, so the save is rejected. The later request with only a
  rating finds no review and fails the same way (\<open>comment_only_creates_nothing\<close> is the
  general fact). Alice has 120 minutes on the game and both toggles are off.
\<close>

theorem partial_review_not_stored:
  "addOrUpdateProductReview ex_new_db 1 10 JUndefined (Some ''Nice'') =
     (ex_new_db, Reply 500 (Message ServerError)) \<and>
   addOrUpdateProductReview ex_new_db 1 10 (JNum 4) None =
     (ex_new_db, Reply 500 (Message ServerError)) \<and>
   stored_time ex_new_db 1 10 = Fin 120 \<and>
   map_option p_reviews (Product_findById ex_new_db 10) = Some []"
  by (simp add: review_defs stored_time_def ex_more_defs ex_defs)

section \<open>Facts about the playtime ledger\<close>

lemma findIndex_None: "findIndex P xs = None \<longleftrightarrow> find P xs = None"
  by (induction xs) auto

lemma findIndex_Some:
  "findIndex P xs = Some i \<Longrightarrow> i < length xs \<and> P (xs ! i) \<and> find P xs = Some (xs ! i)"
  by (induction xs arbitrary: i) (auto split: if_splits)











lemma users_updateWeightedProductRating [simp]:
  "users (updateWeightedProductRating d pid) = users d"
  by (auto simp: updateWeightedProductRating_def Let_def split: option.splits sum.splits)

lemma users_updateWeightedProductRating_uc [simp]:
  "users (updateWeightedProductRating_uc d pid) = users d"
  by (auto simp: updateWeightedProductRating_uc_def Let_def split: option.splits)

lemma User_findById_update [simp]:
  "User_findById (updateWeightedProductRating d pid) k = User_findById d k"
  by (simp add: User_findById_def)

lemma ids_store_rating: "map p_id (products (store_rating d p x)) = map p_id (products d)"
  by (auto simp: store_rating_def Product_save_def)

lemma ids_updateWeightedProductRating:
  "map p_id (products (updateWeightedProductRating d pid)) = map p_id (products d)"
  by (auto simp: updateWeightedProductRating_def Let_def ids_store_rating
      split: option.splits sum.splits)

lemma found_iff_ids: "Product_findById d k = None \<longleftrightarrow> k \<notin> set (map p_id (products d))"
  by (auto simp: Product_findById_def find_None_iff)

lemma found_after_update [simp]:
  "Product_findById (updateWeightedProductRating d pid) k = None \<longleftrightarrow>
   Product_findById d k = None"
  by (simp only: found_iff_ids ids_updateWeightedProductRating)

lemma found_after_User_save [simp]:
  "Product_findById (User_save d u) k = Product_findById d k"
  by (simp add: Product_findById_def User_save_def)

lemma found_after_users_update [simp]:
  "Product_findById (d\<lparr>users := us\<rparr>) k = Product_findById d k"
  by (simp add: Product_findById_def)

lemma stored_time_users:
  "users d' = users d \<Longrightarrow> stored_time d' u g = stored_time d u g"
  by (simp add: stored_time_def User_findById_def)

lemma stored_time_update [simp]:
  "stored_time (updateWeightedProductRating d pid) u g = stored_time d u g"
  by (rule stored_time_users) simp



lemma passes_own_check:
  "truthy n \<Longrightarrow> \<not> num_le n (Fin 0) \<Longrightarrow> num_gt n (Fin 0)"
  by (cases n) (auto simp: num_le_def num_gt_def)

lemma own_check_iff:
  "(\<not> truthy n \<or> num_le n (Fin 0)) \<longleftrightarrow> \<not> (truthy n \<and> num_gt n (Fin 0))"
  by (cases n) (auto simp: num_le_def num_gt_def)

lemma playGame_alt:
  "playGame d u g t =
     (if truthy (Number t) \<and> num_gt (Number t) (Fin 0)
      then (case Product_findById d g of
              None \<Rightarrow> (d, Reply 404 (Message GameNotFound))
            | Some product \<Rightarrow>
                (case User_findById d u of
                   None \<Rightarrow> (d, Reply 404 (Message UserNotFound))
                 | Some user \<Rightarrow>
                     (case record_play g (Number t) user of
                        Inl e \<Rightarrow> (d, Reply 500 (Message ServerError))
                      | Inr user' \<Rightarrow>
                          (case gamePlayData g user' of
                             Some updatedPlayTime \<Rightarrow>
                               (updateWeightedProductRating (User_save d user') g,
                                Reply 200 (PlaytimeUpdated (pt_time updatedPlayTime)))
                           | None \<Rightarrow>
                               (updateWeightedProductRating (User_save d user') g,
                                Reply 500 (Message ServerError))))))
      else (d, Reply 400 (Message ValidPlaytimeRequired)))"
  unfolding playGame_def Let_def own_check_iff by simp





subsection \<open>Whole minutes: the stored time is the exact sum\<close>





text \<open>
  The copy in the product controller gives up when a review names an author who is not stored:
  the exception is caught and the rating stays as it was.
\<close>

lemma missing_author_keeps_rating:
  assumes "Product_findById d productId = Some product"
    and "User_find_played d productId \<noteq> []"
    and "r \<in> set (p_reviews product)" and "User_findById d (r_user r) = None"
  shows "updateWeightedProductRating d productId = d"
proof -
  have "\<exists>e. weightedSum_pc d productId us acc rs = Inl e" if "r \<in> set rs" for us acc rs
    using that assms(4) by (induction rs arbitrary: acc) (auto split: option.splits)
  from this [OF assms(3)] obtain e where
    "weightedSum_pc d productId (User_find_played d productId) (Fin 0) (p_reviews product) = Inl e"
    by blast
  with assms(1,2) show ?thesis
    by (simp add: updateWeightedProductRating_def Let_def)
qed

text \<open>Minutes that convert to NaN, to zero or to a negative number are rejected.\<close>

lemma playGame_rejects:
  assumes "Number time = NaN \<or> num_le (Number time) (Fin 0)"
  shows "playGame d userId productId time = (d, Reply 400 (Message ValidPlaytimeRequired))"
  using assms by (auto simp: playGame_def)

lemma case_option_const:
  "x \<noteq> None \<Longrightarrow> (case x of None \<Rightarrow> a | Some y \<Rightarrow> b) = b"
  by (cases x) auto

lemma rnd_245_2: "rnd (245 / 2) = Fin (245 / 2)"
proof -
  have "round_pos (245 / 2) = Fin (245 / 2)"
    by (rule round_pos_at [where e = 6 and n = "245 * 2 ^ 45"]) simp_all
  then show ?thesis by (simp add: rnd_def)
qed



lemma Product_findById_Cons:
  "Product_findById \<lparr>users = us, products = p # ps\<rparr> k =
     (if p_id p = k then Some p else Product_findById \<lparr>users = us, products = ps\<rparr> k)"
  by (simp add: Product_findById_def)

lemmas play_defs = playGame_alt record_play_def User_save_def User_findById_def
  gamePlayData_def stored_time_def case_option_const Product_findById_Cons

section \<open>Claims about the playtime ledger\<close>




text \<open>
  Claim C9 says that minutes which are not a positive integer are rejected and nothing is
  stored. Zero, negative and NaN minutes are rejected (\<open>playGame_rejects\<close>). For 2.5 minutes
  the route's validation chain does record an error, but the handler never reads the recorded
  errors: it answers 200 and adds 2.5 minutes to Alice's 120.
\<close>

theorem fractional_minutes_accepted:
  "fst (route_play ex_db 1 10 (JNum (5 / 2))) = False \<and>
   snd (snd (route_play ex_db 1 10 (JNum (5 / 2)))) = Reply 200 (PlaytimeUpdated (Fin (245 / 2))) \<and>
   stored_time (fst (snd (route_play ex_db 1 10 (JNum (5 / 2))))) 1 10 = Fin (245 / 2)"
  by (simp add: route_play_def check_time_def not_int_5_2 rnd_5_2 rnd_245_2 play_defs
      ex_defs)

section \<open>Facts about the read projections\<close>






























section \<open>Claims about the read projections\<close>



section \<open>Facts about the invariant of the review store\<close>

lemma review_inv_rating [simp]: "review_inv (p\<lparr>p_rating := x\<rparr>) = review_inv p"
  by (simp add: review_inv_def)

lemma Product_save_inv:
  "db_inv d \<Longrightarrow> review_inv p \<Longrightarrow> Product_save d p = Inr d' \<Longrightarrow> db_inv d'"
  by (auto simp: Product_save_def db_inv_def list_all_iff split: if_splits)

lemma store_rating_inv: "db_inv d \<Longrightarrow> review_inv p \<Longrightarrow> db_inv (store_rating d p x)"
  by (auto simp: store_rating_def split: sum.splits dest: Product_save_inv [where p = "p\<lparr>p_rating := x\<rparr>"])

lemma findById_inv: "db_inv d \<Longrightarrow> Product_findById d pid = Some p \<Longrightarrow> review_inv p"
  by (auto simp: db_inv_def list_all_iff Product_findById_def find_Some_iff)

lemma updateWeightedProductRating_inv: "db_inv d \<Longrightarrow> db_inv (updateWeightedProductRating d pid)"
  by (auto simp: updateWeightedProductRating_def Let_def store_rating_inv findById_inv
      split: option.splits sum.splits)

lemma updateWeightedProductRating_uc_inv:
  "db_inv d \<Longrightarrow> db_inv (updateWeightedProductRating_uc d pid)"
  by (auto simp: updateWeightedProductRating_uc_def Let_def store_rating_inv findById_inv
      split: option.splits)

lemma save_and_reply_inv:
  assumes "db_inv d" and "\<And>p. pr = Inr p \<Longrightarrow> review_inv p"
  shows "db_inv (fst (save_and_reply d pid pr st m))"
proof (cases pr)
  case (Inl e)
  with assms(1) show ?thesis by (simp add: save_and_reply_def)
next
  case (Inr p)
  with assms(2) have "review_inv p" by simp
  with assms(1) Inr show ?thesis
    by (auto simp: save_and_reply_def updateWeightedProductRating_inv
        split: sum.splits dest: Product_save_inv)
qed

lemma assign_rating_user: "assign_rating n r = Inr r' \<Longrightarrow> r_user r' = r_user r"
  by (cases "(n, r)" rule: assign_rating.cases) auto

lemma assign_comment_user [simp]: "r_user (assign_comment c r) = r_user r"
  by (cases c) auto

lemma review_inv_update:
  assumes "review_inv p" and "i < length (p_reviews p)" and "r_user r' = r_user (p_reviews p ! i)"
  shows "review_inv (p\<lparr>p_reviews := (p_reviews p)[i := r']\<rparr>)"
proof -
  have "map r_user ((p_reviews p)[i := r']) = map r_user (p_reviews p)"
    using assms(2,3) by (simp add: map_update list_update_same_conv)
  with assms(1) show ?thesis by (simp add: review_inv_def)
qed

lemma review_inv_add:
  assumes "review_inv p" and "findIndex (\<lambda>r. r_user r = r_user r') (p_reviews p) = None"
  shows "review_inv (p\<lparr>p_reviews := p_reviews p @ [r'],
                        p_numReviews := Fin (of_nat (length (p_reviews p @ [r'])))\<rparr>)"
proof -
  from assms(2) have "find (\<lambda>r. r_user r = r_user r') (p_reviews p) = None"
    by (simp add: findIndex_None)
  then have "r_user r' \<notin> set (map r_user (p_reviews p))"
    by (auto simp: find_None_iff)
  with assms(1) show ?thesis by (simp add: review_inv_def)
qed

lemma addOrUpdateProductReview_inv:
  assumes inv: "db_inv d"
  shows "db_inv (fst (addOrUpdateProductReview d userId productId rating comment))"
proof (cases "Product_findById d productId")
  case None
  with inv show ?thesis by (simp add: addOrUpdateProductReview_def Let_def)
next
  case (Some product)
  note prod = Some
  have pinv: "review_inv product" using inv prod by (rule findById_inv)
  show ?thesis
  proof (cases "User_findById d userId")
    case None
    with inv prod show ?thesis by (simp add: addOrUpdateProductReview_def Let_def)
  next
    case (Some user)
    let ?n = "if rating \<noteq> JUndefined then Some (Number rating) else None"
    show ?thesis
    proof (cases "findIndex (\<lambda>r. r_user r = userId) (p_reviews product)")
      case None
      let ?base = "\<lparr>r_user = userId, r_name = u_name user, r_rating = None, r_comment = comment\<rparr>"
      let ?pr = "case assign_rating ?n ?base of
                   Inl e \<Rightarrow> Inl e
                 | Inr newReview \<Rightarrow>
                     (let reviews' = p_reviews product @ [newReview] in
                      Inr (product\<lparr>p_reviews := reviews',
                             p_numReviews := Fin (of_nat (length reviews'))\<rparr>))"
      have "review_inv p" if "?pr = Inr p" for p
      proof -
        from that obtain r' where r': "assign_rating ?n ?base = Inr r'"
          and p: "p = product\<lparr>p_reviews := p_reviews product @ [r'],
                     p_numReviews := Fin (of_nat (length (p_reviews product @ [r'])))\<rparr>"
          by (auto simp: Let_def split: sum.splits)
        from assign_rating_user [OF r'] have "r_user r' = userId" by simp
        with None pinv show ?thesis unfolding p by (intro review_inv_add) simp_all
      qed
      then have "db_inv (fst (save_and_reply d productId ?pr 201 ReviewAdded))"
        by (intro save_and_reply_inv [OF inv])
      with inv prod Some None show ?thesis
        by (cases "rating = JUndefined") (simp_all add: addOrUpdateProductReview_def Let_def)
    next
      case (Some i)
      note idx = Some
      let ?pr = "case assign_rating ?n (p_reviews product ! i) of
                   Inl e \<Rightarrow> Inl e
                 | Inr r \<Rightarrow>
                     Inr (product\<lparr>p_reviews := (p_reviews product)
                            [i := (assign_comment comment r)\<lparr>r_name := u_name user\<rparr>]\<rparr>)"
      have "review_inv p" if "?pr = Inr p" for p
      proof -
        from that obtain r where r: "assign_rating ?n (p_reviews product ! i) = Inr r"
          and p: "p = product\<lparr>p_reviews := (p_reviews product)
                            [i := (assign_comment comment r)\<lparr>r_name := u_name user\<rparr>]\<rparr>"
          by (auto split: sum.splits)
        from findIndex_Some [OF idx] have "i < length (p_reviews product)" by simp
        with pinv assign_rating_user [OF r] show ?thesis
          unfolding p by (intro review_inv_update) simp_all
      qed
      then have "db_inv (fst (save_and_reply d productId ?pr 200 ReviewUpdated))"
        by (intro save_and_reply_inv [OF inv])
      with inv prod \<open>User_findById d userId = Some user\<close> idx show ?thesis
        by (cases "rating = JUndefined") (simp_all add: addOrUpdateProductReview_def Let_def)
    qed
  qed
qed

lemma review_inv_filter:
  assumes "review_inv p"
  shows "review_inv (p\<lparr>p_reviews := filter Q (p_reviews p),
                        p_numReviews := Fin (of_nat (length (filter Q (p_reviews p))))\<rparr>)"
  using assms by (simp add: review_inv_def distinct_map_filter)

lemma deleteUser_loop_inv:
  "db_inv d \<Longrightarrow> \<forall>p\<in>set ps. review_inv p \<Longrightarrow> db_inv (snd (deleteUser_loop d userId ps))"
proof (induction ps arbitrary: d)
  case Nil
  then show ?case by simp
next
  case (Cons p ps)
  let ?p' = "p\<lparr>p_reviews := filter (\<lambda>review. r_user review \<noteq> userId) (p_reviews p),
               p_numReviews :=
                 Fin (of_nat (length (filter (\<lambda>review. r_user review \<noteq> userId) (p_reviews p))))\<rparr>"
  from Cons.prems have p': "review_inv ?p'" by (intro review_inv_filter) simp
  show ?case
  proof (cases "Product_save d ?p'")
    case (Inl e)
    with Cons.prems show ?thesis by (simp add: Let_def)
  next
    case (Inr d1)
    with Cons.prems(1) p' have "db_inv d1" by (blast intro: Product_save_inv)
    then have "db_inv (updateWeightedProductRating_uc d1 (p_id p))"
      by (rule updateWeightedProductRating_uc_inv)
    with Cons.IH Cons.prems(2) Inr show ?thesis by (simp add: Let_def)
  qed
qed

lemma deleteUser_inv:
  assumes "db_inv d"
  shows "db_inv (fst (deleteUser d userId))"
proof -
  have "\<forall>p\<in>set (Product_find_reviewed d userId). review_inv p"
    using assms by (auto simp: Product_find_reviewed_def db_inv_def list_all_iff)
  with assms have "db_inv (snd (deleteUser_loop d userId (Product_find_reviewed d userId)))"
    by (rule deleteUser_loop_inv)
  with assms show ?thesis
    by (auto simp: deleteUser_def User_deleteOne_def db_inv_def split: option.splits prod.splits)
qed

lemma createProduct_inv:
  assumes "db_inv d" and "b_numReviews b = None"
  shows "db_inv (fst (createProduct d newId b))"
  using assms
  by (auto simp: createProduct_def Product_insert_def Let_def db_inv_def review_inv_def opt_or_def
      split: option.splits if_splits)

lemma updateProduct_inv:
  assumes "db_inv d" and "b_numReviews b = None"
  shows "db_inv (fst (updateProduct d productId b))"
proof (cases "Product_findById d productId")
  case None
  with assms(1) show ?thesis by (simp add: updateProduct_def)
next
  case (Some product)
  let ?u = "product\<lparr>p_name := str_or (b_name b) (p_name product),
                            p_description := str_or (b_description b) (p_description product),
                            p_image := str_or (b_image b) (p_image product),
                            p_brand := str_or (b_brand b) (p_brand product),
                            p_category := opt_or (b_category b) (p_category product),
                            p_disableRating := opt_or (b_disableRating b) (p_disableRating product),
                            p_disableCommenting :=
                              opt_or (b_disableCommenting b) (p_disableCommenting product),
                            p_numReviews :=
                              opt_or (map_option rnd (b_numReviews b)) (p_numReviews product),
                            p_rating := opt_or (map_option rnd (b_rating b)) (p_rating product)\<rparr>"
  have "review_inv product" using assms(1) Some by (rule findById_inv)
  with assms(2) have "review_inv ?u" by (simp add: review_inv_def opt_or_def)
  with assms(1) have "\<And>d'. Product_save d ?u = Inr d' \<Longrightarrow> db_inv d'"
    by (blast intro: Product_save_inv)
  with assms(1) Some show ?thesis
    by (auto simp: updateProduct_def Let_def split: sum.splits)
qed

lemmas admin_defs = updateProduct_def createProduct_def check_update_def check_create_def
  notEmpty_def startsWith_def isValidFormat_def str_or_def opt_or_def Product_findById_def
  Product_save_def Product_insert_def valid_product_def valid_review_def

section \<open>Claims about the invariant of the review store\<close>

text \<open>
  Claim C7, as amended. When every product's count equals the length of its review list and
  no user has two reviews of a product, the same holds after a review is inserted or updated
  and after the cleanup of a deleted user. After a product is created or updated by an admin
  it holds provided the request body carries no additional \<open>numReviews\<close> field: the
  handlers copy every additional body field onto the product.
\<close>

theorem review_store_invariant:
  assumes "db_inv d"
  shows "db_inv (fst (addOrUpdateProductReview d userId productId rating comment)) \<and>
         db_inv (fst (deleteUser d userId)) \<and>
         (b_numReviews b = None \<longrightarrow>
            db_inv (fst (createProduct d newId b)) \<and> db_inv (fst (updateProduct d productId b)))"
  using assms addOrUpdateProductReview_inv deleteUser_inv createProduct_inv updateProduct_inv
  by blast

theorem review_store_invariant_witness:
  "db_inv ex_db \<and> b_numReviews ex_plain_body = None \<and>
   db_inv (fst (addOrUpdateProductReview ex_db 1 10 (JNum 4) None)) \<and>
   db_inv (fst (deleteUser ex_db 1)) \<and>
   db_inv (fst (createProduct ex_db 11 ex_plain_body)) \<and>
   db_inv (fst (updateProduct ex_db 10 ex_plain_body))"
proof -
  have inv: "db_inv ex_db"
    by (simp add: db_inv_def review_inv_def ex_defs)
  have plain: "b_numReviews ex_plain_body = None"
    by (simp add: ex_plain_body_def)
  from review_store_invariant [OF inv, of 1 10 "JNum 4" None ex_plain_body 11] inv plain
  show ?thesis by simp
qed

text \<open>
  The claim as first stated covers product creation and the admin update without that
  proviso. A body with \<open>numReviews: 7\<close> is accepted by both and leaves a product whose count
  is 7 beside two reviews, or none.
\<close>

theorem review_store_invariant_counterexample:
  "db_inv ex_db \<and>
   status (snd (updateProduct ex_db 10 ex_body)) = 200 \<and>
   \<not> db_inv (fst (updateProduct ex_db 10 ex_body)) \<and>
   status (snd (createProduct ex_db 11 ex_body)) = 201 \<and>
   \<not> db_inv (fst (createProduct ex_db 11 ex_body))"
  by (simp add: db_inv_def review_inv_def admin_defs Let_def ex_body_def ex_defs)

section \<open>Facts about the deletion cleanup\<close>

text \<open>
  Whatever \<^verbatim>\<open>deleteUser\<close> cleaned, its reply is one of three messages; none of them
  carries a count.
\<close>

lemma deleteUser_bodies:
  "body (snd (deleteUser d userId)) \<in>
     {Message UserNotFound, Message ServerError, Message UserRemoved}"
  by (auto simp: deleteUser_def split: option.splits prod.splits)

lemmas delete_defs = deleteUser_def Product_find_reviewed_def Product_findById_def
  User_findById_def Product_save_def valid_product_def valid_review_def User_deleteOne_def
  updateWeightedProductRating_uc_def User_find_played_def totalPlayTime_of_def gamePlayData_def
  add_review_def review_weight_def store_rating_def

section \<open>Claims about the deletion cleanup\<close>

text \<open>
  Claim C8 says that both deletions report in their success response how many dependent
  records were touched. \<^verbatim>\<open>deleteProduct\<close> does: its reply carries the number of users whose
  ledger held the game. \<^verbatim>\<open>deleteUser\<close> does not: its replies are messages and nothing else.
  Deleting Alice removes her review from one game, sets that game's count to 1, stores the
  rating the aggregator computes while she is still stored (\<open>80 * 3 / (120 + 80)\<close>, rounded)
  and then removes her; deleting Dora touches no game; the two success replies are the same
  message. The cleanup of \<^verbatim>\<open>deleteProduct\<close> also depends on the installed Mongoose: where
  \<^verbatim>\<open>ObjectId\<close> cannot be called without \<^verbatim>\<open>new\<close> the request is answered 500 and nothing is
  removed.
\<close>

theorem deleteUser_reports_no_count:
  "body (snd (deleteUser d userId)) \<in>
     {Message UserNotFound, Message ServerError, Message UserRemoved} \<and>
   length (Product_find_reviewed ex_db 1) = 1 \<and>
   deleteUser ex_db 1 =
     (\<lparr>users = [ex_bob],
       products = [ex_game\<lparr>p_reviews := [\<lparr>r_user = 2, r_name = ''Bob'', r_rating = Some (Fin 3),
                                           r_comment = Some ''Solid''\<rparr>],
                           p_numReviews := Fin 1, p_rating := rnd (6 / 5)\<rparr>]\<rparr>,
      Reply 200 (Message UserRemoved)) \<and>
   length (Product_find_reviewed ex_gate_db 4) = 0 \<and>
   snd (deleteUser ex_gate_db 4) = Reply 200 (Message UserRemoved) \<and>
   deleteProduct True ex_db 10 =
     (\<lparr>users = [ex_alice\<lparr>u_playTime := []\<rparr>, ex_bob\<lparr>u_playTime := []\<rparr>], products = []\<rparr>,
      Reply 200 (ProductRemoved 2)) \<and>
   deleteProduct False ex_db 10 = (ex_db, Reply 500 (Message ServerError))"
proof -
  have 1: "length (Product_find_reviewed ex_db 1) = 1"
    by (simp add: Product_find_reviewed_def ex_defs)
  have 2: "deleteUser ex_db 1 =
     (\<lparr>users = [ex_bob],
       products = [ex_game\<lparr>p_reviews := [\<lparr>r_user = 2, r_name = ''Bob'', r_rating = Some (Fin 3),
                                           r_comment = Some ''Solid''\<rparr>],
                           p_numReviews := Fin 1, p_rating := rnd (6 / 5)\<rparr>]\<rparr>,
      Reply 200 (Message UserRemoved))"
    by (simp add: delete_defs ex_defs)
  have 3: "length (Product_find_reviewed ex_gate_db 4) = 0"
    by (simp add: Product_find_reviewed_def ex_more_defs ex_defs)
  have 4: "snd (deleteUser ex_gate_db 4) = Reply 200 (Message UserRemoved)"
    by (simp add: delete_defs ex_more_defs ex_defs)
  have 5: "deleteProduct True ex_db 10 =
     (\<lparr>users = [ex_alice\<lparr>u_playTime := []\<rparr>, ex_bob\<lparr>u_playTime := []\<rparr>], products = []\<rparr>,
      Reply 200 (ProductRemoved 2))"
    by (simp add: deleteProduct_def Product_findById_def User_find_played_def User_save_def
        Product_deleteOne_def ex_defs)
  have 6: "deleteProduct False ex_db 10 = (ex_db, Reply 500 (Message ServerError))"
    by (simp add: deleteProduct_def ex_found)
  from deleteUser_bodies [of d userId] 1 2 3 4 5 6 show ?thesis by (intro conjI)
qed

end
